theory Spec2Isabelle
  imports Main "HOL-Library.Word"
begin

unbundle bit_operations_syntax

section \<open>Machine types and text output\<close>

type_synonym uint8_t = "8 word"
type_synonym uint16_t = "16 word"
type_synonym uint32_t = "32 word"

text \<open>
  The program writes to standard output with \<^verbatim>\<open>printf\<close> only. The model gives each
  function the text it writes, as a byte string; a line ends with the newline character.
\<close>

definition newline :: char where
  "newline = CHR 0x0A"

text \<open>
  \<^verbatim>\<open>printf("%d", x)\<close>: the decimal digits of an \<^verbatim>\<open>int\<close>, with a leading minus sign for a
  negative value.
\<close>

definition digit :: "nat \<Rightarrow> char" where
  "digit n = ''0123456789'' ! n"

fun dec_nat :: "nat \<Rightarrow> string" where
  "dec_nat n = (if n < 10 then [digit n] else dec_nat (n div 10) @ [digit (n mod 10)])"

declare dec_nat.simps [simp del]

definition printf_d :: "int \<Rightarrow> string" where
  "printf_d i = (if i < 0 then CHR ''-'' # dec_nat (nat (- i)) else dec_nat (nat i))"

section \<open>Instruction fields (src/main.cpp, lines 29-37)\<close>

definition OPCODE_MASK :: uint32_t where
  "OPCODE_MASK = 0xFF000000"

definition R1_MASK :: uint32_t where
  "R1_MASK = 0x00F00000"

definition R2_MASK :: uint32_t where
  "R2_MASK = 0x000F0000"

definition R3IMM_MASK :: uint32_t where
  "R3IMM_MASK = 0x0000FFFF"

definition GET_OPCODE :: "uint32_t \<Rightarrow> uint32_t" where
  "GET_OPCODE instr = drop_bit 24 (instr AND OPCODE_MASK)"

definition GET_R1 :: "uint32_t \<Rightarrow> uint32_t" where
  "GET_R1 instr = drop_bit 20 (instr AND R1_MASK)"

definition GET_R2 :: "uint32_t \<Rightarrow> uint32_t" where
  "GET_R2 instr = drop_bit 16 (instr AND R2_MASK)"

definition GET_R3IMM :: "uint32_t \<Rightarrow> uint32_t" where
  "GET_R3IMM instr = instr AND R3IMM_MASK"

text \<open>
  Both \<^verbatim>\<open>decodeInstruction\<close> and \<^verbatim>\<open>executeInstruction\<close> start with the same four local
  declarations (lines 42-45 and 91-94), which narrow the macro results to \<^verbatim>\<open>uint8_t\<close> and
  \<^verbatim>\<open>uint16_t\<close>. The record holds these four locals.
\<close>

record decoded =
  opcode :: uint8_t
  r1 :: uint8_t
  r2 :: uint8_t
  r3_imm :: uint16_t

definition decode :: "uint32_t \<Rightarrow> decoded" where
  "decode instr =
     \<lparr>opcode = ucast (GET_OPCODE instr),
      r1 = ucast (GET_R1 instr),
      r2 = ucast (GET_R2 instr),
      r3_imm = ucast (GET_R3IMM instr)\<rparr>"

section \<open>Disassembly (src/main.cpp, lines 41-88)\<close>

text \<open>
  \<^verbatim>\<open>decodeInstruction\<close> prints one line. The \<^verbatim>\<open>uint8_t\<close> and \<^verbatim>\<open>uint16_t\<close> arguments of
  \<^verbatim>\<open>printf\<close> are promoted to \<^verbatim>\<open>int\<close>, so \<^verbatim>\<open>%d\<close> prints their unsigned value.
\<close>

definition decodeInstruction :: "uint32_t \<Rightarrow> string" where
  "decodeInstruction instr =
     (let d = decode instr;
          a = printf_d (uint (r1 d));
          b = printf_d (uint (r2 d));
          c = printf_d (uint (r3_imm d))
      in if opcode d = 0x53 then ''WRITE R'' @ a @ [newline]
         else if opcode d = 0x54 then ''MOV R'' @ a @ '', R'' @ b @ [newline]
         else if opcode d = 0x55 then ''MOVli R'' @ a @ '', '' @ c @ [newline]
         else if opcode d = 0x56 then ''MOVhi R'' @ a @ '', '' @ c @ [newline]
         else if opcode d = 0x57 then ''ADD R'' @ a @ '', R'' @ b @ '', R'' @ c @ [newline]
         else if opcode d = 0x58 then ''ADDi R'' @ a @ '', R'' @ b @ '', '' @ c @ [newline]
         else if opcode d = 0x59 then ''SUB R'' @ a @ '', R'' @ b @ '', R'' @ c @ [newline]
         else if opcode d = 0x60 then ''SUBi R'' @ a @ '', R'' @ b @ '', '' @ c @ [newline]
         else if opcode d = 0x61 then ''MUL R'' @ a @ '', R'' @ b @ '', R'' @ c @ [newline]
         else if opcode d = 0x62 then ''MULi R'' @ a @ '', R'' @ b @ '', '' @ c @ [newline]
         else if opcode d = 0x63 then ''DIV R'' @ a @ '', R'' @ b @ '', R'' @ c @ [newline]
         else if opcode d = 0x64 then ''DIVi R'' @ a @ '', R'' @ b @ '', '' @ c @ [newline]
         else ''UNKNOWN INSTRUCTION'' @ [newline])"

section \<open>Execution (src/main.cpp, lines 90-137)\<close>

text \<open>
  A C++ statement either completes, or its behaviour is undefined. The source has two
  places of the second kind: an array subscript outside the array, and an integer
  division whose divisor is zero. Its functions return \<^verbatim>\<open>void\<close>, throw nothing and test
  nothing, so no path of the model yields \<open>Raises\<close>; the constructor stands for an
  error that is detected and reported to the caller, and is there so that statements
  about such conditions can be written down.
\<close>

datatype undefined_behaviour = OutOfBoundsAccess | DivideByZero

datatype condition = DivisionByZero | IndexOutOfRange

datatype 'a outcome = Returns 'a | Raises condition | Undefined undefined_behaviour

fun and_then :: "'a outcome \<Rightarrow> ('a \<Rightarrow> 'b outcome) \<Rightarrow> 'b outcome" where
  "and_then (Returns x) f = f x"
| "and_then (Raises c) f = Raises c"
| "and_then (Undefined u) f = Undefined u"

text \<open>
  The register file is the array behind the pointer \<^verbatim>\<open>registers\<close>; \<open>load\<close> is the
  read \<^verbatim>\<open>registers[i]\<close> and \<open>store\<close> the assignment \<^verbatim>\<open>registers[i] = v\<close>, which prints
  nothing. Neither is checked in the source.
\<close>

definition load :: "uint32_t list \<Rightarrow> nat \<Rightarrow> uint32_t outcome" where
  "load registers i = (if i < length registers then Returns (registers ! i)
                       else Undefined OutOfBoundsAccess)"

definition store :: "uint32_t list \<Rightarrow> nat \<Rightarrow> uint32_t \<Rightarrow> (uint32_t list \<times> string) outcome" where
  "store registers i v = (if i < length registers then Returns (registers[i := v], [])
                          else Undefined OutOfBoundsAccess)"

definition udiv :: "uint32_t \<Rightarrow> uint32_t \<Rightarrow> uint32_t outcome" where
  "udiv a b = (if b = 0 then Undefined DivideByZero else Returns (a div b))"

text \<open>
  \<^verbatim>\<open>executeInstruction\<close> gives the register file after the instruction and the text
  printed. In \<^verbatim>\<open>printf("%d\n", registers[r1])\<close> the argument is a \<^verbatim>\<open>uint32_t\<close> read back
  as an \<^verbatim>\<open>int\<close>: the text is the two's complement value of the register. In
  \<^verbatim>\<open>r3_imm << 16\<close> the 16-bit operand is promoted to a 32-bit \<^verbatim>\<open>int\<close> before the shift and
  the result is converted to \<^verbatim>\<open>uint32_t\<close> by the assignment: the register gets the
  operand in its upper 16 bits. In the immediate forms the promoted operand is converted
  to \<^verbatim>\<open>uint32_t\<close> by the unsigned arithmetic. The operands of an assignment are read
  before the arithmetic, and the arithmetic is done before the store.
\<close>

definition executeInstruction ::
    "uint32_t \<Rightarrow> uint32_t list \<Rightarrow> (uint32_t list \<times> string) outcome" where
  "executeInstruction instr registers =
     (let d = decode instr;
          i1 = unat (r1 d);
          i2 = unat (r2 d);
          i3 = unat (r3_imm d);
          imm = (ucast (r3_imm d) :: uint32_t)
      in if opcode d = 0x53 then
           and_then (load registers i1) (\<lambda>v.
             Returns (registers, printf_d (sint v) @ [newline]))
         else if opcode d = 0x54 then
           and_then (load registers i2) (\<lambda>v. store registers i1 v)
         else if opcode d = 0x55 then
           store registers i1 imm
         else if opcode d = 0x56 then
           store registers i1 (push_bit 16 imm)
         else if opcode d = 0x57 then
           and_then (load registers i2) (\<lambda>x.
           and_then (load registers i3) (\<lambda>y. store registers i1 (x + y)))
         else if opcode d = 0x58 then
           and_then (load registers i2) (\<lambda>x. store registers i1 (x + imm))
         else if opcode d = 0x59 then
           and_then (load registers i2) (\<lambda>x.
           and_then (load registers i3) (\<lambda>y. store registers i1 (x - y)))
         else if opcode d = 0x60 then
           and_then (load registers i2) (\<lambda>x. store registers i1 (x - imm))
         else if opcode d = 0x61 then
           and_then (load registers i2) (\<lambda>x.
           and_then (load registers i3) (\<lambda>y. store registers i1 (x * y)))
         else if opcode d = 0x62 then
           and_then (load registers i2) (\<lambda>x. store registers i1 (x * imm))
         else if opcode d = 0x63 then
           and_then (load registers i2) (\<lambda>x.
           and_then (load registers i3) (\<lambda>y.
           and_then (udiv x y) (\<lambda>q. store registers i1 q)))
         else if opcode d = 0x64 then
           and_then (load registers i2) (\<lambda>x.
           and_then (udiv x imm) (\<lambda>q. store registers i1 q))
         else Returns (registers, ''UNKNOWN INSTRUCTION'' @ [newline]))"

section \<open>The two passes (src/main.cpp, lines 141-167)\<close>

text \<open>
  A program is the array \<^verbatim>\<open>bin\<close> with its \<^verbatim>\<open>binSize\<close> elements, here a list; the \<^verbatim>\<open>for\<close>
  loops visit its elements in order.
\<close>

fun printAsm_loop :: "uint32_t list \<Rightarrow> string" where
  "printAsm_loop [] = []"
| "printAsm_loop (w # ws) = decodeInstruction w @ printAsm_loop ws"

definition printAsm :: "uint32_t list \<Rightarrow> string" where
  "printAsm bin = ''INSTRUCTIONS:'' @ [newline] @ printAsm_loop bin @ [newline]"

fun execute_loop :: "uint32_t list \<Rightarrow> uint32_t list \<Rightarrow> (uint32_t list \<times> string) outcome" where
  "execute_loop [] registers = Returns (registers, [])"
| "execute_loop (w # ws) registers =
     and_then (executeInstruction w registers) (\<lambda>(registers', out).
     and_then (execute_loop ws registers') (\<lambda>(registers'', out').
       Returns (registers'', out @ out')))"

definition execute :: "uint32_t list \<Rightarrow> string outcome" where
  "execute bin =
     and_then (execute_loop bin (replicate 16 0)) (\<lambda>(registers, out).
       Returns (''EXECUTION:'' @ [newline] @ out @ [newline]))"

definition BIN :: "uint32_t list" where
  "BIN = [0x56000001, 0x53000000, 0x64100100, 0x53100000,
          0x58210010, 0x53200000, 0x60310010, 0x53300000,
          0x57320003, 0x53300000, 0x59230002, 0x53200000,
          0x59330002, 0x53300000, 0x57120003, 0x53100000,
          0x62110010, 0x53100000, 0x63000001, 0x53000000]"

text \<open>\<^verbatim>\<open>main\<close> runs the disassembly pass, then the execution pass, on \<open>BIN\<close>.\<close>

definition main :: "string outcome" where
  "main = and_then (Returns (printAsm BIN)) (\<lambda>listing.
          and_then (execute BIN) (\<lambda>out. Returns (listing @ out)))"

section \<open>Lines of a text\<close>

text \<open>
  The lines of a text: each newline character closes a line; characters after the last
  newline form an unfinished last line.
\<close>

fun split_lines :: "string \<Rightarrow> string \<Rightarrow> string list" where
  "split_lines acc [] = (if acc = [] then [] else [acc])"
| "split_lines acc (c # cs) =
     (if c = newline then acc # split_lines [] cs else split_lines (acc @ [c]) cs)"

definition lines_of :: "string \<Rightarrow> string list" where
  "lines_of s = split_lines [] s"

section \<open>The opcode table of the specification\<close>

text \<open>
  The mnemonic templates of the specification's opcode table, as it prints them. A
  placeholder \<^verbatim>\<open><name>\<close> stands for the decimal text of the field of that name.
\<close>

definition mnemonic_table :: "(uint8_t \<times> string) list" where
  "mnemonic_table =
     [(0x53, ''WRITE R<r1>''),
      (0x54, ''MOV R<r1>, R<r2>''),
      (0x55, ''MOVli R<r1>, <r3_or_imm>''),
      (0x56, ''MOVhi R<r1>, <r3_or_imm>''),
      (0x57, ''ADD R<r1>, R<r2>, R<r3_or_imm>''),
      (0x58, ''ADDi R<r1>, R<r2>, <r3_or_imm>''),
      (0x59, ''SUB R<r1>, R<r2>, R<r3_or_imm>''),
      (0x60, ''SUBi R<r1>, R<r2>, <r3_or_imm>''),
      (0x61, ''MUL R<r1>, R<r2>, R<r3_or_imm>''),
      (0x62, ''MULi R<r1>, R<r2>, <r3_or_imm>''),
      (0x63, ''DIV R<r1>, R<r2>, R<r3_or_imm>''),
      (0x64, ''DIVi R<r1>, R<r2>, <r3_or_imm>'')]"

definition field_text :: "decoded \<Rightarrow> string \<Rightarrow> string" where
  "field_text d name =
     (if name = ''r1'' then dec_nat (unat (r1 d))
      else if name = ''r2'' then dec_nat (unat (r2 d))
      else if name = ''r3_or_imm'' then dec_nat (unat (r3_imm d))
      else CHR ''<'' # name @ ''>'')"

text \<open>
  \<open>fill env p t\<close> copies the template \<open>t\<close> and replaces each placeholder by its text;
  \<open>p\<close> is the part of a placeholder's name read so far, if one is open.
\<close>

fun fill :: "(string \<Rightarrow> string) \<Rightarrow> string option \<Rightarrow> string \<Rightarrow> string" where
  "fill env None [] = []"
| "fill env (Some name) [] = CHR ''<'' # name"
| "fill env None (c # cs) =
     (if c = CHR ''<'' then fill env (Some []) cs else c # fill env None cs)"
| "fill env (Some name) (c # cs) =
     (if c = CHR ''>'' then env name @ fill env None cs
      else fill env (Some (name @ [c])) cs)"

definition disassemble :: "decoded \<Rightarrow> string" where
  "disassemble d =
     (case map_of mnemonic_table (opcode d) of
        None \<Rightarrow> ''UNKNOWN INSTRUCTION''
      | Some t \<Rightarrow> fill (field_text d) None t)"

text \<open>
  The opcodes of the table, those among them whose last field names a register, and the
  instructions that print a line when executed.
\<close>

definition recognized :: "uint8_t \<Rightarrow> bool" where
  "recognized op \<longleftrightarrow> (0x53 \<le> op \<and> op \<le> 0x59) \<or> (0x60 \<le> op \<and> op \<le> 0x64)"

definition register_form :: "uint8_t \<Rightarrow> bool" where
  "register_form op \<longleftrightarrow> op = 0x57 \<or> op = 0x59 \<or> op = 0x61 \<or> op = 0x63"

definition prints_line :: "uint32_t \<Rightarrow> bool" where
  "prints_line w \<longleftrightarrow> opcode (decode w) = 0x53 \<or> \<not> recognized (opcode (decode w))"




text \<open>
  The arithmetic opcodes, the result of each over the integers, before any reduction to
  32 bits, and the value of the last operand: the register that \<open>r3_imm\<close> names in the
  register forms, the 16-bit immediate itself in the others.
\<close>

definition arithmetic :: "uint8_t \<Rightarrow> bool" where
  "arithmetic op \<longleftrightarrow>
     op = 0x57 \<or> op = 0x58 \<or> op = 0x59 \<or> op = 0x60 \<or> op = 0x61 \<or> op = 0x62"

definition exact_result :: "uint8_t \<Rightarrow> int \<Rightarrow> int \<Rightarrow> int" where
  "exact_result op a b =
     (if op = 0x57 \<or> op = 0x58 then a + b
      else if op = 0x59 \<or> op = 0x60 then a - b
      else a * b)"

definition last_operand :: "decoded \<Rightarrow> uint32_t list \<Rightarrow> int" where
  "last_operand d registers =
     (if register_form (opcode d) then uint (registers ! unat (r3_imm d))
      else uint (r3_imm d))"

text \<open>The number that a string of decimal digits denotes.\<close>

definition digit_value :: "char \<Rightarrow> nat" where
  "digit_value c = of_char c - 48"

definition dec_value :: "string \<Rightarrow> nat" where
  "dec_value s = foldl (\<lambda>n c. 10 * n + digit_value c) 0 s"

section \<open>Field extraction\<close>

lemma mask_consts:
  "(0xFF000000 :: uint32_t) = push_bit 24 (mask 8)"
  "(0x00F00000 :: uint32_t) = push_bit 20 (mask 4)"
  "(0x000F0000 :: uint32_t) = push_bit 16 (mask 4)"
  "(0x0000FFFF :: uint32_t) = mask 16"
  "(0xFF :: uint32_t) = mask 8"
  "(0xF :: uint32_t) = mask 4"
  by (simp_all add: mask_eq_exp_minus_1 push_bit_eq_mult)

lemma GET_OPCODE_take: "GET_OPCODE w = take_bit 8 (drop_bit 24 w)"
  unfolding GET_OPCODE_def OPCODE_MASK_def mask_consts
  by (rule bit_word_eqI) (auto simp add: bit_simps)

lemma GET_R1_take: "GET_R1 w = take_bit 4 (drop_bit 20 w)"
  unfolding GET_R1_def R1_MASK_def mask_consts
  by (rule bit_word_eqI) (auto simp add: bit_simps)

lemma GET_R2_take: "GET_R2 w = take_bit 4 (drop_bit 16 w)"
  unfolding GET_R2_def R2_MASK_def mask_consts
  by (rule bit_word_eqI) (auto simp add: bit_simps)

lemma GET_R3IMM_take: "GET_R3IMM w = take_bit 16 w"
  unfolding GET_R3IMM_def R3IMM_MASK_def mask_consts
  by (simp add: take_bit_eq_mask)

lemmas unat_field_simps =
  unsigned_ucast_eq unsigned_take_bit_eq unsigned_drop_bit_eq take_bit_eq_mod
  drop_bit_eq_div unat_div unat_mod

lemma unat_opcode: "unat (opcode (decode w)) = unat w div 2 ^ 24 mod 2 ^ 8"
  by (simp add: decode_def GET_OPCODE_take unat_field_simps)

lemma unat_r1: "unat (r1 (decode w)) = unat w div 2 ^ 20 mod 2 ^ 4"
  by (simp add: decode_def GET_R1_take unat_field_simps)

lemma unat_r2: "unat (r2 (decode w)) = unat w div 2 ^ 16 mod 2 ^ 4"
  by (simp add: decode_def GET_R2_take unat_field_simps)

lemma unat_r3_imm: "unat (r3_imm (decode w)) = unat w mod 2 ^ 16"
  by (simp add: decode_def GET_R3IMM_take unat_field_simps)

lemma unat_shift_mask:
  "unat (drop_bit 24 w AND (0xFF :: uint32_t)) = unat w div 2 ^ 24 mod 2 ^ 8"
  "unat (drop_bit 20 w AND (0xF :: uint32_t)) = unat w div 2 ^ 20 mod 2 ^ 4"
  "unat (drop_bit 16 w AND (0xF :: uint32_t)) = unat w div 2 ^ 16 mod 2 ^ 4"
  "unat (w AND (0xFFFF :: uint32_t)) = unat w mod 2 ^ 16"
  unfolding mask_consts take_bit_eq_mask [symmetric]
  by (simp_all add: unat_field_simps)

lemma r1_lt: "unat (r1 (decode w)) < 16"
  by (simp add: unat_r1)

lemma r2_lt: "unat (r2 (decode w)) < 16"
  by (simp add: unat_r2)

lemmas decode_simps =
  decode_def GET_OPCODE_def GET_R1_def GET_R2_def GET_R3IMM_def
  OPCODE_MASK_def R1_MASK_def R2_MASK_def R3IMM_MASK_def

text \<open>
  C5. Decoding cannot fail: \<open>decode\<close> is a function from every 32-bit word to the four
  fields. As numbers, the opcode is \<^verbatim>\<open>(word >> 24) & 0xFF\<close> and at most 255, \<open>r1\<close> is
  \<^verbatim>\<open>(word >> 20) & 0xF\<close> and \<open>r2\<close> is \<^verbatim>\<open>(word >> 16) & 0xF\<close>, each at most 15, and
  \<open>r3_imm\<close> is \<^verbatim>\<open>word & 0xFFFF\<close>, at most 65535. The word \<^verbatim>\<open>0x56000001\<close> decodes to
  opcode \<^verbatim>\<open>0x56\<close>, \<open>r1 = 0\<close>, \<open>r2 = 0\<close>, \<open>r3_imm = 1\<close>.
\<close>

theorem decode_total_fields:
  "unat (opcode (decode w)) = unat (drop_bit 24 w AND (0xFF :: uint32_t)) \<and>
   unat (r1 (decode w)) = unat (drop_bit 20 w AND (0xF :: uint32_t)) \<and>
   unat (r2 (decode w)) = unat (drop_bit 16 w AND (0xF :: uint32_t)) \<and>
   unat (r3_imm (decode w)) = unat (w AND (0xFFFF :: uint32_t)) \<and>
   unat (opcode (decode w)) \<le> 255 \<and>
   unat (r1 (decode w)) \<le> 15 \<and>
   unat (r2 (decode w)) \<le> 15 \<and>
   unat (r3_imm (decode w)) \<le> 65535 \<and>
   decode 0x56000001 = \<lparr>opcode = 0x56, r1 = 0, r2 = 0, r3_imm = 1\<rparr>"
proof -
  have fields:
    "unat (opcode (decode w)) = unat (drop_bit 24 w AND (0xFF :: uint32_t))"
    "unat (r1 (decode w)) = unat (drop_bit 20 w AND (0xF :: uint32_t))"
    "unat (r2 (decode w)) = unat (drop_bit 16 w AND (0xF :: uint32_t))"
    "unat (r3_imm (decode w)) = unat (w AND (0xFFFF :: uint32_t))"
    by (simp_all only: unat_opcode unat_r1 unat_r2 unat_r3_imm unat_shift_mask)
  have "unat w div 2 ^ 24 mod 2 ^ 8 < 2 ^ 8" "unat w div 2 ^ 20 mod 2 ^ 4 < 2 ^ 4"
    "unat w div 2 ^ 16 mod 2 ^ 4 < 2 ^ 4" "unat w mod 2 ^ 16 < 2 ^ 16"
    by simp_all
  then have bounds:
    "unat (opcode (decode w)) \<le> 255" "unat (r1 (decode w)) \<le> 15"
    "unat (r2 (decode w)) \<le> 15" "unat (r3_imm (decode w)) \<le> 65535"
    by (simp_all add: unat_opcode unat_r1 unat_r2 unat_r3_imm)
  have example: "decode 0x56000001 = \<lparr>opcode = 0x56, r1 = 0, r2 = 0, r3_imm = 1\<rparr>"
    by (simp add: decode_simps)
  from fields bounds example show ?thesis by blast
qed

section \<open>Decimal text\<close>

text \<open>
  The digits that \<open>dec_nat\<close> writes denote the number written, and contain no newline.
\<close>

lemma digit_cases: "k < 10 \<Longrightarrow> k \<in> {0, 1, 2, 3, 4, 5, 6, 7, 8, 9 :: nat}"
  by auto

lemma digit_value_digit: "k < 10 \<Longrightarrow> digit_value (digit k) = k"
  by (drule digit_cases) (auto simp add: digit_value_def digit_def)


lemma dec_value_snoc: "dec_value (s @ [c]) = 10 * dec_value s + digit_value c"
  by (simp add: dec_value_def)

lemma dec_value_dec_nat: "dec_value (dec_nat n) = n"
proof (induction n rule: dec_nat.induct)
  case (1 n)
  show ?case
  proof (cases "n < 10")
    case True
    then show ?thesis
      by (subst dec_nat.simps) (simp add: dec_value_def digit_value_digit)
  next
    case False
    then have "dec_value (dec_nat (n div 10)) = n div 10" using 1 by simp
    with False show ?thesis
      by (subst dec_nat.simps) (simp add: dec_value_snoc digit_value_digit)
  qed
qed



lemma printf_d_uint: "printf_d (uint (x :: 'a::len word)) = dec_nat (unat x)"
  by (simp add: printf_d_def)

section \<open>Disassembly against the opcode table\<close>

text \<open>
  C4. For every instruction word, the line that \<open>decodeInstruction\<close> prints is the
  template of the opcode table for the decoded opcode, with each placeholder replaced by
  the decimal text of its field (registers as \<^verbatim>\<open>R<n>\<close>, immediates as decimal numbers),
  or \<^verbatim>\<open>UNKNOWN INSTRUCTION\<close> for an opcode outside the table, followed by a newline.
\<close>

theorem disassembly_matches_table:
  "decodeInstruction w = disassemble (decode w) @ [newline]"
  unfolding decodeInstruction_def disassemble_def mnemonic_table_def field_text_def Let_def
  by (simp add: printf_d_uint)



lemma disassemble_example: "disassemble (decode 0x64100100) = ''DIVi R1, R0, 256''"
  by (simp add: disassemble_def mnemonic_table_def field_text_def decode_simps
      dec_nat.simps digit_def)

section \<open>One instruction\<close>

lemma unat_eq_word: "unat (x :: uint8_t) = n \<Longrightarrow> x = word_of_nat n"
  by auto

lemma unat_ucast_imm: "unat (ucast (x :: uint16_t) :: uint32_t) = unat x"
proof -
  have "unat x < 2 ^ 16" using unsigned_less [of x] by simp
  then have "unat x < 2 ^ 32" by simp
  then show ?thesis by (simp add: unsigned_ucast_eq take_bit_nat_eq_self)
qed

lemma ucast_imm_eq_0: "(ucast (x :: uint16_t) :: uint32_t) = 0 \<longleftrightarrow> x = 0"
  using unat_ucast_imm [of x] by (metis unat_eq_zero)

lemma recognized_cases:
  "recognized op \<longleftrightarrow>
     op = 0x53 \<or> op = 0x54 \<or> op = 0x55 \<or> op = 0x56 \<or> op = 0x57 \<or> op = 0x58 \<or> op = 0x59 \<or>
     op = 0x60 \<or> op = 0x61 \<or> op = 0x62 \<or> op = 0x63 \<or> op = 0x64"
  (is "_ \<longleftrightarrow> ?R")
proof
  assume "recognized op"
  then have "(83 \<le> unat op \<and> unat op \<le> 89) \<or> (96 \<le> unat op \<and> unat op \<le> 100)"
    by (simp add: recognized_def word_le_nat_alt)
  then have "unat op \<in> {83, 84, 85, 86, 87, 88, 89, 96, 97, 98, 99, 100}"
    by auto
  then show ?R by (auto dest!: unat_eq_word)
next
  assume ?R
  then show "recognized op" by (auto simp add: recognized_def)
qed

lemma recognized_opcode_cases:
  assumes "recognized (opcode (decode w))"
  obtains
    "opcode (decode w) = 0x53" | "opcode (decode w) = 0x54" | "opcode (decode w) = 0x55" |
    "opcode (decode w) = 0x56" | "opcode (decode w) = 0x57" | "opcode (decode w) = 0x58" |
    "opcode (decode w) = 0x59" | "opcode (decode w) = 0x60" | "opcode (decode w) = 0x61" |
    "opcode (decode w) = 0x62" | "opcode (decode w) = 0x63" | "opcode (decode w) = 0x64"
  using assms unfolding recognized_cases by blast

lemma load_in: "i < length regs \<Longrightarrow> load regs i = Returns (regs ! i)"
  by (simp add: load_def)

lemma load_out: "\<not> i < length regs \<Longrightarrow> load regs i = Undefined OutOfBoundsAccess"
  by (simp add: load_def)

lemma store_in: "i < length regs \<Longrightarrow> store regs i v = Returns (regs[i := v], [])"
  by (simp add: store_def)


text \<open>What each opcode does to a file of 16 registers.\<close>

lemma exec_write:
  assumes "length regs = 16" "opcode (decode w) = 0x53"
  shows "executeInstruction w regs =
         Returns (regs, printf_d (sint (regs ! unat (r1 (decode w)))) @ [newline])"
  using assms r1_lt [of w] by (simp add: executeInstruction_def Let_def load_in)

lemma exec_unknown:
  assumes "\<not> recognized (opcode (decode w))"
  shows "executeInstruction w regs = Returns (regs, ''UNKNOWN INSTRUCTION'' @ [newline])"
  using assms by (simp add: executeInstruction_def Let_def recognized_cases)

lemma exec_reg3:
  assumes "length regs = 16" "unat (r3_imm (decode w)) < 16"
  shows "opcode (decode w) = 0x57 \<Longrightarrow> executeInstruction w regs =
           Returns (regs[unat (r1 (decode w)) :=
             regs ! unat (r2 (decode w)) + regs ! unat (r3_imm (decode w))], [])"
    and "opcode (decode w) = 0x59 \<Longrightarrow> executeInstruction w regs =
           Returns (regs[unat (r1 (decode w)) :=
             regs ! unat (r2 (decode w)) - regs ! unat (r3_imm (decode w))], [])"
    and "opcode (decode w) = 0x61 \<Longrightarrow> executeInstruction w regs =
           Returns (regs[unat (r1 (decode w)) :=
             regs ! unat (r2 (decode w)) * regs ! unat (r3_imm (decode w))], [])"
    and "opcode (decode w) = 0x63 \<Longrightarrow> executeInstruction w regs =
           (if regs ! unat (r3_imm (decode w)) = 0 then Undefined DivideByZero
            else Returns (regs[unat (r1 (decode w)) :=
              regs ! unat (r2 (decode w)) div regs ! unat (r3_imm (decode w))], []))"
  using assms r1_lt [of w] r2_lt [of w]
  by (simp_all add: executeInstruction_def Let_def load_in store_in udiv_def)

lemma exec_reg3_out:
  assumes "length regs = 16" "\<not> unat (r3_imm (decode w)) < 16"
    and "register_form (opcode (decode w))"
  shows "executeInstruction w regs = Undefined OutOfBoundsAccess"
  using assms r1_lt [of w] r2_lt [of w]
  by (auto simp add: register_form_def executeInstruction_def Let_def load_in load_out)

lemma exec_imm:
  assumes "length regs = 16"
  shows "opcode (decode w) = 0x54 \<Longrightarrow> executeInstruction w regs =
           Returns (regs[unat (r1 (decode w)) := regs ! unat (r2 (decode w))], [])"
    and "opcode (decode w) = 0x55 \<Longrightarrow> executeInstruction w regs =
           Returns (regs[unat (r1 (decode w)) := ucast (r3_imm (decode w))], [])"
    and "opcode (decode w) = 0x56 \<Longrightarrow> executeInstruction w regs =
           Returns (regs[unat (r1 (decode w)) := push_bit 16 (ucast (r3_imm (decode w)))], [])"
    and "opcode (decode w) = 0x58 \<Longrightarrow> executeInstruction w regs =
           Returns (regs[unat (r1 (decode w)) :=
             regs ! unat (r2 (decode w)) + ucast (r3_imm (decode w))], [])"
    and "opcode (decode w) = 0x60 \<Longrightarrow> executeInstruction w regs =
           Returns (regs[unat (r1 (decode w)) :=
             regs ! unat (r2 (decode w)) - ucast (r3_imm (decode w))], [])"
    and "opcode (decode w) = 0x62 \<Longrightarrow> executeInstruction w regs =
           Returns (regs[unat (r1 (decode w)) :=
             regs ! unat (r2 (decode w)) * ucast (r3_imm (decode w))], [])"
    and "opcode (decode w) = 0x64 \<Longrightarrow> executeInstruction w regs =
           (if r3_imm (decode w) = 0 then Undefined DivideByZero
            else Returns (regs[unat (r1 (decode w)) :=
              regs ! unat (r2 (decode w)) div ucast (r3_imm (decode w))], []))"
  using assms r1_lt [of w] r2_lt [of w]
  by (simp_all add: executeInstruction_def Let_def load_in store_in udiv_def ucast_imm_eq_0)

lemmas exec_simps =
  executeInstruction_def load_def store_def udiv_def printf_d_def dec_nat.simps digit_def

text \<open>No path of \<open>executeInstruction\<close> reports a condition.\<close>

lemma exec_never_raises: "executeInstruction w regs \<noteq> Raises c"
proof -
  have load: "\<And>i f. (\<And>v. f v \<noteq> Raises c) \<Longrightarrow> and_then (load regs i) f \<noteq> Raises c"
    by (simp add: load_def)
  have udiv: "\<And>a b f. (\<And>v. f v \<noteq> Raises c) \<Longrightarrow> and_then (udiv a b) f \<noteq> Raises c"
    by (simp add: udiv_def)
  have store: "\<And>i v. store regs i v \<noteq> Raises c"
    by (simp add: store_def)
  show ?thesis
    unfolding executeInstruction_def Let_def
    by (simp add: load udiv store)
qed

text \<open>
  C6. For every instruction word whose opcode is outside \<^verbatim>\<open>0x53\<close>-\<^verbatim>\<open>0x59\<close> and
  \<^verbatim>\<open>0x60\<close>-\<^verbatim>\<open>0x64\<close>, disassembly prints the line \<^verbatim>\<open>UNKNOWN INSTRUCTION\<close>, and execution
  prints the same line and returns the register file it was given.
\<close>

theorem unknown_opcode_line:
  assumes "\<not> recognized (opcode (decode w))"
  shows "decodeInstruction w = ''UNKNOWN INSTRUCTION'' @ [newline] \<and>
         executeInstruction w regs = Returns (regs, ''UNKNOWN INSTRUCTION'' @ [newline]) \<and>
         lines_of (''UNKNOWN INSTRUCTION'' @ [newline]) = [''UNKNOWN INSTRUCTION'']"
proof -
  have "decodeInstruction w = ''UNKNOWN INSTRUCTION'' @ [newline]"
    using assms by (simp add: decodeInstruction_def Let_def recognized_cases)
  moreover have "lines_of (''UNKNOWN INSTRUCTION'' @ [newline]) = [''UNKNOWN INSTRUCTION'']"
    by (simp add: lines_of_def newline_def)
  ultimately show ?thesis
    using assms exec_unknown [of w regs] by simp
qed

theorem unknown_opcode_line_witness:
  "\<not> recognized (opcode (decode 0x5A123456)) \<and>
   decodeInstruction 0x5A123456 = ''UNKNOWN INSTRUCTION'' @ [newline] \<and>
   executeInstruction 0x5A123456 (replicate 16 7) =
     Returns (replicate 16 7, ''UNKNOWN INSTRUCTION'' @ [newline]) \<and>
   lines_of (''UNKNOWN INSTRUCTION'' @ [newline]) = [''UNKNOWN INSTRUCTION'']"
proof -
  have h: "\<not> recognized (opcode (decode 0x5A123456))"
    by (simp add: decode_simps recognized_def)
  show ?thesis using h unknown_opcode_line [OF h, of "replicate 16 7"] by simp
qed

lemma uint_arith32:
  "uint (a + b :: uint32_t) = (uint a + uint b) mod 4294967296"
  "uint (a - b :: uint32_t) = (uint a - uint b) mod 4294967296"
  "uint (a * b :: uint32_t) = (uint a * uint b) mod 4294967296"
  using uint_word_ariths(1) [of a b] uint_word_ariths(2) [of a b] uint_word_ariths(3) [of a b]
  by simp_all

lemma all_ones: "(0xFFFFFFFF :: uint32_t) = - 1"
  by simp

lemma update_ex: "uint x = r \<Longrightarrow> \<exists>v. regs[i := x] = regs[i := v] \<and> uint v = r"
  by blast

text \<open>
  C7. On a file of 16 registers, each of ADD, ADDi, SUB, SUBi, MUL and MULi completes,
  prints nothing and stores in register \<open>r1\<close> the exact integer sum, difference or
  product of its two operands reduced modulo \<open>2 ^ 32\<close>; for the register forms the last
  operand is the register that \<open>r3_imm\<close> names, which has to be one of the 16. In
  particular SUBi R0, R0, 1 (the word \<^verbatim>\<open>0x60000001\<close>) with register 0 holding 0 leaves
  \<^verbatim>\<open>0xFFFFFFFF\<close> in register 0.
\<close>

theorem arithmetic_wraps_around:
  assumes "length regs = 16"
    and "arithmetic (opcode (decode w))"
    and "register_form (opcode (decode w)) \<longrightarrow> unat (r3_imm (decode w)) < 16"
  shows "(\<exists>v. executeInstruction w regs = Returns (regs[unat (r1 (decode w)) := v], []) \<and>
              uint v = exact_result (opcode (decode w)) (uint (regs ! unat (r2 (decode w))))
                         (last_operand (decode w) regs) mod 2 ^ 32) \<and>
         (w = 0x60000001 \<and> regs ! 0 = 0 \<longrightarrow>
            executeInstruction w regs = Returns (regs[0 := 0xFFFFFFFF], []))"
proof -
  have uc: "uint (ucast (r3_imm (decode w)) :: uint32_t) = uint (r3_imm (decode w))"
    using unat_ucast_imm [of "r3_imm (decode w)"] by (metis uint_nat)
  have general: "\<exists>v. executeInstruction w regs = Returns (regs[unat (r1 (decode w)) := v], []) \<and>
              uint v = exact_result (opcode (decode w)) (uint (regs ! unat (r2 (decode w))))
                         (last_operand (decode w) regs) mod 2 ^ 32"
  proof -
    note defs = exact_result_def last_operand_def register_form_def
    from assms(2) consider
      (ADD) "opcode (decode w) = 0x57" | (ADDi) "opcode (decode w) = 0x58" |
      (SUB) "opcode (decode w) = 0x59" | (SUBi) "opcode (decode w) = 0x60" |
      (MUL) "opcode (decode w) = 0x61" | (MULi) "opcode (decode w) = 0x62"
      unfolding arithmetic_def by blast
    then show ?thesis
    proof cases
      case ADD
      with assms(1,3) show ?thesis
        by (simp add: exec_reg3(1) defs) (rule update_ex, simp add: uint_arith32)
    next
      case ADDi
      with assms(1) show ?thesis
        by (simp add: exec_imm(4) defs) (rule update_ex, simp add: uint_arith32 uc)
    next
      case SUB
      with assms(1,3) show ?thesis
        by (simp add: exec_reg3(2) defs) (rule update_ex, simp add: uint_arith32)
    next
      case SUBi
      with assms(1) show ?thesis
        by (simp add: exec_imm(5) defs) (rule update_ex, simp add: uint_arith32 uc)
    next
      case MUL
      with assms(1,3) show ?thesis
        by (simp add: exec_reg3(3) defs) (rule update_ex, simp add: uint_arith32)
    next
      case MULi
      with assms(1) show ?thesis
        by (simp add: exec_imm(6) defs) (rule update_ex, simp add: uint_arith32 uc)
    qed
  qed
  have example: "w = 0x60000001 \<and> regs ! 0 = 0 \<longrightarrow>
            executeInstruction w regs = Returns (regs[0 := 0xFFFFFFFF], [])"
  proof
    assume h: "w = 0x60000001 \<and> regs ! 0 = 0"
    have "decode 0x60000001 = \<lparr>opcode = 0x60, r1 = 0, r2 = 0, r3_imm = 1\<rparr>"
      by (simp add: decode_simps)
    with h assms(1) show "executeInstruction w regs = Returns (regs[0 := 0xFFFFFFFF], [])"
      by (simp add: exec_imm(5) all_ones)
  qed
  from general example show ?thesis by blast
qed

theorem arithmetic_wraps_around_witness:
  "length (replicate 16 (0 :: uint32_t)) = 16 \<and>
   arithmetic (opcode (decode 0x60000001)) \<and>
   \<not> register_form (opcode (decode 0x60000001)) \<and>
   replicate 16 (0 :: uint32_t) ! 0 = 0 \<and>
   executeInstruction 0x60000001 (replicate 16 0) =
     Returns ((replicate 16 0)[0 := 0xFFFFFFFF], [])"
  using arithmetic_wraps_around [of "replicate 16 0" "0x60000001"]
  by (simp add: decode_simps arithmetic_def register_form_def)

text \<open>
  C8. WRITE R0 (the word \<^verbatim>\<open>0x53000000\<close>) with register 0 holding \<^verbatim>\<open>0xFFFFFFFF\<close> prints the
  line \<^verbatim>\<open>-1\<close> and leaves the registers as they were; the decimal text of the unsigned
  value is \<^verbatim>\<open>4294967295\<close>. The two-word program SUBi R0, R0, 1; WRITE R0 reaches that
  state from the zero register file and prints \<^verbatim>\<open>-1\<close>.
\<close>

theorem write_prints_signed_text:
  "executeInstruction 0x53000000 ((replicate 16 0)[0 := 0xFFFFFFFF]) =
     Returns ((replicate 16 0)[0 := 0xFFFFFFFF], ''-1'' @ [newline]) \<and>
   dec_nat (unat (0xFFFFFFFF :: uint32_t)) = ''4294967295'' \<and>
   execute [0x60000001, 0x53000000] =
     Returns (''EXECUTION:'' @ [newline] @ ''-1'' @ [newline] @ [newline])"
  by (simp add: decode_simps exec_simps execute_def)

text \<open>
  Below \<open>2 ^ 31\<close> the signed and the unsigned reading of a register agree, and WRITE
  prints the decimal text of the unsigned value.
\<close>

lemma sint_small: "unat (v :: uint32_t) < 2 ^ 31 \<Longrightarrow> sint v = int (unat v)"
proof -
  assume "unat v < 2 ^ 31"
  then have "int (unat v) < 2 ^ 31" by (metis of_nat_less_iff of_nat_numeral of_nat_power)
  then have small: "uint v < 2 ^ 31" by (simp only: uint_nat)
  have "0 \<le> uint v" by simp
  then have "- (2 ^ 31) \<le> uint v" by (rule order_trans [rotated]) simp
  with small have "signed_take_bit 31 (uint v) = uint v"
    by (rule signed_take_bit_int_eq_self [rotated])
  then show ?thesis by (simp add: sint_uint)
qed

lemma exec_write_small:
  assumes "length regs = 16" "opcode (decode w) = 0x53"
    and "unat (regs ! unat (r1 (decode w))) < 2 ^ 31"
  shows "executeInstruction w regs =
         Returns (regs, dec_nat (unat (regs ! unat (r1 (decode w)))) @ [newline])"
  using assms(1,2) by (simp add: exec_write sint_small [OF assms(3)] printf_d_def)

text \<open>
  C2. On a file of 16 registers, DIVi with immediate 0, and DIV whose divisor register
  (one of the 16) holds 0, divide unchecked: the behaviour of the instruction is
  undefined, and no condition is reported.
\<close>

theorem division_by_zero_is_undefined:
  assumes "length regs = 16"
    and "(opcode (decode w) = 0x64 \<and> r3_imm (decode w) = 0) \<or>
         (opcode (decode w) = 0x63 \<and> unat (r3_imm (decode w)) < 16 \<and>
          regs ! unat (r3_imm (decode w)) = 0)"
  shows "executeInstruction w regs = Undefined DivideByZero"
  using assms by (auto simp add: exec_imm(7) exec_reg3(4))

theorem division_by_zero_is_undefined_witness:
  "length (replicate 16 (0 :: uint32_t)) = 16 \<and>
   opcode (decode 0x64100000) = 0x64 \<and> r3_imm (decode 0x64100000) = 0 \<and>
   executeInstruction 0x64100000 (replicate 16 0) = Undefined DivideByZero"
  using division_by_zero_is_undefined [of "replicate 16 0" "0x64100000"]
  by (simp add: decode_simps)

text \<open>DIVi R1, R0, 0 on the zero register file does not report DivisionByZero.\<close>

theorem division_by_zero_not_reported:
  "executeInstruction 0x64100000 (replicate 16 0) \<noteq> Raises DivisionByZero"
  by (simp add: decode_simps exec_simps)

text \<open>
  C3. On a file of 16 registers, an instruction with opcode \<^verbatim>\<open>0x57\<close>, \<^verbatim>\<open>0x59\<close>, \<^verbatim>\<open>0x61\<close> or
  \<^verbatim>\<open>0x63\<close> whose \<open>r3_imm\<close> field is above 15 subscripts the register array with the whole
  16-bit field, unchecked: the read is outside the array, the behaviour of the
  instruction is undefined, and no condition is reported.
\<close>

theorem register_index_is_unchecked:
  assumes "length regs = 16"
    and "register_form (opcode (decode w))"
    and "15 < unat (r3_imm (decode w))"
  shows "executeInstruction w regs = Undefined OutOfBoundsAccess"
  using assms by (simp add: exec_reg3_out)

theorem register_index_is_unchecked_witness:
  "length (replicate 16 (0 :: uint32_t)) = 16 \<and>
   register_form (opcode (decode 0x57000010)) \<and> 15 < unat (r3_imm (decode 0x57000010)) \<and>
   executeInstruction 0x57000010 (replicate 16 0) = Undefined OutOfBoundsAccess"
  using register_index_is_unchecked [of "replicate 16 0" "0x57000010"]
  by (simp add: decode_simps register_form_def)

text \<open>ADD R0, R0, R16 on the zero register file does not report IndexOutOfRange.\<close>

theorem index_out_of_range_not_reported:
  "executeInstruction 0x57000010 (replicate 16 0) \<noteq> Raises IndexOutOfRange"
  by (simp add: decode_simps exec_simps)

text \<open>
  C10. On a file of 16 registers, and with \<open>r3_imm\<close> below 16 in the register forms, an
  instruction that completes leaves 16 registers, of which every one other than register
  \<open>r1\<close> holds what it held before; after WRITE and after an unrecognized opcode the
  whole file is as before. The only instructions that do not complete are DIV and DIVi
  with a zero divisor.
\<close>

theorem execute_changes_only_r1:
  assumes "length regs = 16"
    and "register_form (opcode (decode w)) \<longrightarrow> unat (r3_imm (decode w)) < 16"
  shows "case executeInstruction w regs of
           Returns (regs', out) \<Rightarrow>
             length regs' = 16 \<and>
             (\<forall>i<16. i \<noteq> unat (r1 (decode w)) \<longrightarrow> regs' ! i = regs ! i) \<and>
             (prints_line w \<longrightarrow> regs' = regs)
         | Raises c \<Rightarrow> False
         | Undefined u \<Rightarrow>
             u = DivideByZero \<and> (opcode (decode w) = 0x63 \<or> opcode (decode w) = 0x64)"
proof (cases "recognized (opcode (decode w))")
  case False
  with assms(1) show ?thesis by (simp add: exec_unknown)
next
  case True
  note defs = prints_line_def recognized_def register_form_def
  from True show ?thesis
  proof (cases rule: recognized_opcode_cases)
    case 1
    with assms show ?thesis by (simp add: exec_write)
  next
    case 2
    with assms show ?thesis by (simp add: exec_imm(1) defs)
  next
    case 3
    with assms show ?thesis by (simp add: exec_imm(2) defs)
  next
    case 4
    with assms show ?thesis by (simp add: exec_imm(3) defs)
  next
    case 5
    with assms show ?thesis by (simp add: exec_reg3(1) defs)
  next
    case 6
    with assms show ?thesis by (simp add: exec_imm(4) defs)
  next
    case 7
    with assms show ?thesis by (simp add: exec_reg3(2) defs)
  next
    case 8
    with assms show ?thesis by (simp add: exec_imm(5) defs)
  next
    case 9
    with assms show ?thesis by (simp add: exec_reg3(3) defs)
  next
    case 10
    with assms show ?thesis by (simp add: exec_imm(6) defs)
  next
    case 11
    with assms show ?thesis by (simp add: exec_reg3(4) defs)
  next
    case 12
    with assms show ?thesis by (simp add: exec_imm(7) defs)
  qed
qed

theorem execute_changes_only_r1_witness:
  "length (replicate 16 (5 :: uint32_t)) = 16 \<and>
   register_form (opcode (decode 0x57120003)) \<and> unat (r3_imm (decode 0x57120003)) < 16 \<and>
   unat (r1 (decode 0x57120003)) = 1 \<and>
   executeInstruction 0x57120003 (replicate 16 5) =
     Returns ((replicate 16 5)[1 := 10], [])"
  using execute_changes_only_r1 [of "replicate 16 5" "0x57120003"]
  by (simp add: decode_simps register_form_def exec_simps)

section \<open>The two passes\<close>

text \<open>
  C1. The execution pass over the 20-word program of \<open>main\<close>, which starts from 16
  registers holding 0, completes and prints the header line, then the ten lines 65536,
  256, 272, 240, 512, 240, 272, 512, 8192 and 8 in this order, then an empty line.
\<close>

theorem full_scenario_output:
  "execute BIN =
     Returns (concat (map (\<lambda>l. l @ [newline])
       [''EXECUTION:'', ''65536'', ''256'', ''272'', ''240'', ''512'', ''240'', ''272'',
        ''512'', ''8192'', ''8'', []]))"
  by (simp add: BIN_def decode_simps exec_simps execute_def)

text \<open>
  The whole program prints what the comment at the end of the source file (lines
  169-203) expects.
\<close>

lemma main_expected_output:
  "main = Returns (concat (map (\<lambda>l. l @ [newline])
     [''INSTRUCTIONS:'',
      ''MOVhi R0, 1'', ''WRITE R0'', ''DIVi R1, R0, 256'', ''WRITE R1'',
      ''ADDi R2, R1, 16'', ''WRITE R2'', ''SUBi R3, R1, 16'', ''WRITE R3'',
      ''ADD R3, R2, R3'', ''WRITE R3'', ''SUB R2, R3, R2'', ''WRITE R2'',
      ''SUB R3, R3, R2'', ''WRITE R3'', ''ADD R1, R2, R3'', ''WRITE R1'',
      ''MULi R1, R1, 16'', ''WRITE R1'', ''DIV R0, R0, R1'', ''WRITE R0'',
      [],
      ''EXECUTION:'', ''65536'', ''256'', ''272'', ''240'', ''512'', ''240'', ''272'',
      ''512'', ''8192'', ''8'', []]))"
proof -
  have "execute BIN =
     Returns (concat (map (\<lambda>l. l @ [newline])
       [''EXECUTION:'', ''65536'', ''256'', ''272'', ''240'', ''512'', ''240'', ''272'',
        ''512'', ''8192'', ''8'', []]))"
    by (simp add: BIN_def decode_simps exec_simps execute_def)
  moreover have "printAsm BIN = concat (map (\<lambda>l. l @ [newline])
     [''INSTRUCTIONS:'',
      ''MOVhi R0, 1'', ''WRITE R0'', ''DIVi R1, R0, 256'', ''WRITE R1'',
      ''ADDi R2, R1, 16'', ''WRITE R2'', ''SUBi R3, R1, 16'', ''WRITE R3'',
      ''ADD R3, R2, R3'', ''WRITE R3'', ''SUB R2, R3, R2'', ''WRITE R2'',
      ''SUB R3, R3, R2'', ''WRITE R3'', ''ADD R1, R2, R3'', ''WRITE R1'',
      ''MULi R1, R1, 16'', ''WRITE R1'', ''DIV R0, R0, R1'', ''WRITE R0'',
      []])"
    by (simp add: BIN_def printAsm_def decodeInstruction_def decode_simps printf_d_def
        dec_nat.simps digit_def)
  ultimately show ?thesis by (simp add: main_def)
qed

















end
